theory Spec2Isabelle
  imports Complex_Main "HOL-Library.Multiset" "HOL-Library.Sublist"
begin

section \<open>Data model of \<open>cajamarca5.py\<close>\<close>

text \<open>
  The dashboard reads one CSV file into a pandas data frame, renames its columns and
  derives the categorical column \<open>AgeGroup\<close>.  A row of the frame after the renaming of
  lines 22-30 is the record \<open>row\<close>; the integer columns are read as mathematical
  integers (population counts and years are far inside the range of a 64-bit column).
  A loaded row carries in addition the cell of the categorical column, \<open>None\<close> standing
  for the missing value (NaN) that pandas stores for an unmapped key.
\<close>

record row =
  Location :: string
  Time :: int
  AgeRange :: string
  AgeStart :: int
  AgeEnd :: int
  Sex :: string
  Value :: int

record lrow = row +
  AgeGroup :: "string option"

text \<open>
  A data frame is its list of rows together with the categories of the dtype of its
  \<open>AgeGroup\<close> column (\<open>df['AgeGroup'].cat.categories\<close>), in their declared order.
\<close>

record frame =
  rows :: "lrow list"
  categories :: "string list"

text \<open>
  Python strings are sequences of code points; the letter a-acute of the last label is the
  single code point U+00E1.
\<close>

definition age_groups :: "string list" where
  "age_groups =
     [''0-4'', ''5-9'', ''10-14'', ''15-19'', ''20-24'', ''25-29'',
      ''30-34'', ''35-39'', ''40-44'', ''45-49'', ''50-54'', ''55-59'',
      ''60-64'', ''65-69'', ''70-74'', ''75-79'', ''80 y m'' @ [CHR 0xE1] @ ''s'']"

text \<open>The dictionary \<open>age_mapping\<close> of lines 40-58, as the list of its items.\<close>

definition age_mapping :: "(int \<times> string) list" where
  "age_mapping =
     [(4, ''0-4''), (9, ''5-9''), (14, ''10-14''), (19, ''15-19''), (24, ''20-24''),
      (29, ''25-29''), (34, ''30-34''), (39, ''35-39''), (44, ''40-44''), (49, ''45-49''),
      (54, ''50-54''), (59, ''55-59''), (64, ''60-64''), (69, ''65-69''), (74, ''70-74''),
      (79, ''75-79''), (120, ''80 y m'' @ [CHR 0xE1] @ ''s'')]"

text \<open>
  \<open>Series.map(dict)\<close>: a key of the dictionary is replaced by its value, every other
  value by NaN.
\<close>

definition series_map :: "('k \<times> 'v) list \<Rightarrow> 'k \<Rightarrow> 'v option" where
  "series_map d k = map_of d k"

text \<open>
  \<open>pd.Categorical(values, categories=cats, ordered=True)\<close>: a value that is not one of
  the categories becomes NaN, and so does NaN.
\<close>

definition Categorical :: "string list \<Rightarrow> string option \<Rightarrow> string option" where
  "Categorical cats v =
     (case v of None \<Rightarrow> None
      | Some l \<Rightarrow> if l \<in> set cats then Some l else None)"

text \<open>
  \<open>load_data\<close> (lines 18-63), applied to the rows that \<open>read_csv\<close> and the renaming
  deliver: line 60 maps \<open>AgeEnd\<close> through the dictionary, line 61 turns the column into
  an ordered categorical with the categories \<open>age_groups\<close>.
\<close>

definition load_row :: "row \<Rightarrow> lrow" where
  "load_row r =
     row.extend r
       (lrow.fields (Categorical age_groups (series_map age_mapping (AgeEnd r))))"

definition load_data :: "row list \<Rightarrow> frame" where
  "load_data raw = \<lparr> rows = map load_row raw, categories = age_groups \<rparr>"


section \<open>The pandas operations the view builders use\<close>

text \<open>\<open>data[mask]\<close>: the rows that satisfy the mask, in their order; the dtype is kept.\<close>

definition select :: "(lrow \<Rightarrow> bool) \<Rightarrow> frame \<Rightarrow> frame" where
  "select P d = d\<lparr> rows := filter P (rows d) \<rparr>"

text \<open>
  \<open>d.groupby('AgeGroup', observed=True)['Value'].sum().reset_index()\<close>: one output
  row for each category that occurs in the frame, in the order of the categories; rows
  whose key is NaN belong to no group (\<open>dropna\<close> has its default, true).
\<close>

definition groupby_sum :: "frame \<Rightarrow> (string \<times> int) list" where
  "groupby_sum d =
     map (\<lambda>g. (g, sum_list (map Value (filter (\<lambda>r. AgeGroup r = Some g) (rows d)))))
       (filter (\<lambda>g. \<exists>r \<in> set (rows d). AgeGroup r = Some g) (categories d))"

text \<open>
  \<open>d.groupby(['Time', 'AgeGroup'], observed=True)['Value'].sum()\<close>: a series indexed by
  the pairs (year, category) that occur in the frame, sorted by year and then by category.
\<close>

definition groupby2_sum :: "frame \<Rightarrow> ((int \<times> string) \<times> int) list" where
  "groupby2_sum d =
     concat (map (\<lambda>t.
        map (\<lambda>g. ((t, g),
               sum_list (map Value
                 (filter (\<lambda>r. Time r = t \<and> AgeGroup r = Some g) (rows d)))))
          (filter (\<lambda>g. \<exists>r \<in> set (rows d). Time r = t \<and> AgeGroup r = Some g)
             (categories d)))
       (sort (remdups (map Time (rows d)))))"

text \<open>
  \<open>unstack()\<close> moves the inner index level into the columns: one row for each year of
  the series, one column for each category of the series (a column is its label and its
  cells, one for each year), and NaN (\<open>None\<close>) in a cell whose pair has no entry.
\<close>

record pivot =
  index :: "int list"
  columns :: "(string \<times> int option list) list"

definition unstack :: "string list \<Rightarrow> ((int \<times> string) \<times> int) list \<Rightarrow> pivot" where
  "unstack cats ser =
     (let idx = remdups (map (\<lambda>e. fst (fst e)) ser);
          cols = filter (\<lambda>g. g \<in> set (map (\<lambda>e. snd (fst e)) ser)) cats
      in \<lparr> index = idx,
           columns = map (\<lambda>g. (g, map (\<lambda>t. map_of ser (t, g)) idx)) cols \<rparr>)"

text \<open>
  \<open>pd.merge(left, right, on='AgeGroup')\<close> is an inner join: the keys of the left frame
  that are keys of the right frame too, in the order of the left frame, each with the
  value of either side.
\<close>

definition merge :: "(string \<times> int) list \<Rightarrow> (string \<times> int) list \<Rightarrow> (string \<times> int \<times> int) list" where
  "merge left right =
     concat (map (\<lambda>(g, v1). map (\<lambda>(g', v2). (g, v1, v2)) (filter (\<lambda>(g', v2). g' = g) right))
       left)"

text \<open>
  A 64-bit float, with rounding left out: a finite value is the exact rational number,
  and the three values that are not finite are kept apart.  Dividing two integer columns
  is numpy's true division, which raises nothing on a zero divisor: it gives an infinity
  with the sign of the dividend, and NaN for 0/0.
\<close>

datatype float64 = Finite rat | PosInf | NegInf | NaN

definition true_divide :: "int \<Rightarrow> int \<Rightarrow> float64" where
  "true_divide a b =
     (if b = 0 then (if 0 < a then PosInf else if a < 0 then NegInf else NaN)
      else Finite (of_int a / of_int b))"

definition multiply :: "float64 \<Rightarrow> int \<Rightarrow> float64" where
  "multiply x k =
     (case x of
        Finite q \<Rightarrow> Finite (q * of_int k)
      | PosInf \<Rightarrow> (if 0 < k then PosInf else if k < 0 then NegInf else NaN)
      | NegInf \<Rightarrow> (if 0 < k then NegInf else if k < 0 then PosInf else NaN)
      | NaN \<Rightarrow> NaN)"

definition isfinite :: "float64 \<Rightarrow> bool" where
  "isfinite x = (case x of Finite q \<Rightarrow> True | _ \<Rightarrow> False)"

section \<open>The store\<close>

text \<open>
  Data frames are mutable objects and the builders receive a reference.  The store is the
  list of the objects allocated so far, an address being a position in it, together with
  the module-level variable \<open>df\<close> (line 66).  A new object is appended, so that its
  address is fresh.
\<close>

datatype obj =
    DataFrame frame
  | Grouped "(string \<times> int) list"
  | Pivot pivot
  | Merged "(string \<times> int \<times> int) list" "float64 list option"

record store =
  heap :: "obj list"
  df :: nat

definition new :: "obj \<Rightarrow> store \<Rightarrow> nat \<times> store" where
  "new ob s = (length (heap s), s\<lparr> heap := heap s @ [ob] \<rparr>)"

definition deref :: "store \<Rightarrow> nat \<Rightarrow> obj option" where
  "deref s a = (if a < length (heap s) then Some (heap s ! a) else None)"

text \<open>\<open>frame['Change'] = column\<close> writes the column into the object the name refers to.\<close>

definition setitem_Change :: "nat \<Rightarrow> float64 list \<Rightarrow> store \<Rightarrow> store" where
  "setitem_Change a col s =
     (case deref s a of
        Some (Merged ms c) \<Rightarrow> s\<lparr> heap := (heap s)[a := Merged ms (Some col)] \<rparr>
      | _ \<Rightarrow> s)"

datatype error = TypeError | ValueError | KeyError


section \<open>The view builders\<close>

text \<open>
  A figure is modelled by the data of its traces; colours, titles, tick marks and the
  formatting of the labels are left out.  A builder takes the address of \<open>data\<close> and the
  store, and returns the figure, or the exception that ends the call, with the store as
  the call leaves it.
\<close>

record bar =
  bar_name :: string
  bar_y :: "string list"
  bar_x :: "int list"
  bar_text :: "int list"

text \<open>\<open>generate_population_pyramid\<close>, lines 70-133.\<close>

definition generate_population_pyramid ::
    "nat \<Rightarrow> int \<Rightarrow> store \<Rightarrow> (error + bar list) \<times> store" where
  "generate_population_pyramid data year s =
     (case deref s data of
        Some (DataFrame d) \<Rightarrow>
          (let y = select (\<lambda>r. Time r = year) d;
               (df_year, s1) = new (DataFrame y) s;
               m = groupby_sum (select (\<lambda>r. Sex r = ''Hombre'') y);
               (df_male, s2) = new (Grouped m) s1;
               f = groupby_sum (select (\<lambda>r. Sex r = ''Mujer'') y);
               (df_female, s3) = new (Grouped f) s2;
               fig = [\<lparr> bar_name = ''Hombres'', bar_y = map fst m, bar_x = map snd m,
                        bar_text = map snd m \<rparr>,
                      \<lparr> bar_name = ''Mujeres'', bar_y = map fst f,
                        bar_x = map (\<lambda>v. - v) (map snd f), bar_text = map snd f \<rparr>]
           in (Inr fig, s3))
      | _ \<Rightarrow> (Inl TypeError, s))"

record area =
  area_name :: string
  area_x :: "int list"
  area_y :: "int option list"

text \<open>
  \<open>generate_population_trend\<close>, lines 136-161: \<open>px.area\<close> draws one series for each column
  of the pivoted frame, in the order of the columns, over the index.
\<close>

definition generate_population_trend ::
    "nat \<Rightarrow> store \<Rightarrow> (error + area list) \<times> store" where
  "generate_population_trend data s =
     (case deref s data of
        Some (DataFrame d) \<Rightarrow>
          (let t = unstack (categories d) (groupby2_sum d);
               (df_trend, s1) = new (Pivot t) s;
               fig = map (\<lambda>(g, col). \<lparr> area_name = g, area_x = index t, area_y = col \<rparr>)
                       (columns t)
           in (Inr fig, s1))
      | _ \<Rightarrow> (Inl TypeError, s))"

record change_bars =
  change_x :: "string list"
  change_y :: "float64 list"
  categoryarray :: "string list"

text \<open>
  \<open>generate_comparison_chart\<close>, lines 164-195.  With equal years both value columns of the
  merged frame get the same name, and the assignment of line 169 fails; the caller never
  passes equal years (line 256).  Line 186 reads the categories of the global \<open>df\<close>.
\<close>

definition generate_comparison_chart ::
    "nat \<Rightarrow> int \<Rightarrow> int \<Rightarrow> store \<Rightarrow> (error + change_bars) \<times> store" where
  "generate_comparison_chart data year1 year2 s =
     (case deref s data of
        Some (DataFrame d) \<Rightarrow>
          (let a1 = groupby_sum (select (\<lambda>r. Time r = year1) d);
               (df_year1, s1) = new (Grouped a1) s;
               a2 = groupby_sum (select (\<lambda>r. Time r = year2) d);
               (df_year2, s2) = new (Grouped a2) s1;
               (df_compare, s3) = new (Merged (merge a1 a2) None) s2
           in if year1 = year2 then (Inl ValueError, s3)
              else
               (let s4 = setitem_Change df_compare
                           (map (\<lambda>(g, v1, v2). multiply (true_divide (v2 - v1) v1) 100)
                              (merge a1 a2)) s3
                in case deref s4 df_compare of
                     Some (Merged ms (Some ch)) \<Rightarrow>
                       (case deref s4 (df s4) of
                          Some (DataFrame g) \<Rightarrow>
                            (Inr \<lparr> change_x = map fst ms, change_y = ch,
                                   categoryarray = categories g \<rparr>, s4)
                        | _ \<Rightarrow> (Inl TypeError, s4))
                   | _ \<Rightarrow> (Inl KeyError, s4)))
      | _ \<Rightarrow> (Inl TypeError, s))"

text \<open>
  Line 66, \<open>df = load_data()\<close>: the program's store after the load holds the loaded table,
  and \<open>df\<close> refers to it.
\<close>

definition initial :: "row list \<Rightarrow> store" where
  "initial raw = \<lparr> heap = [DataFrame (load_data raw)], df = 0 \<rparr>"


section \<open>The notions of the specification\<close>

text \<open>
  The mapping table as the specification lists it, key by key; \<open>None\<close> is the unmapped
  (null) age group.
\<close>

definition listed_label :: "int \<Rightarrow> string option" where
  "listed_label e =
     (if e = 4 then Some ''0-4'' else if e = 9 then Some ''5-9''
      else if e = 14 then Some ''10-14'' else if e = 19 then Some ''15-19''
      else if e = 24 then Some ''20-24'' else if e = 29 then Some ''25-29''
      else if e = 34 then Some ''30-34'' else if e = 39 then Some ''35-39''
      else if e = 44 then Some ''40-44'' else if e = 49 then Some ''45-49''
      else if e = 54 then Some ''50-54'' else if e = 59 then Some ''55-59''
      else if e = 64 then Some ''60-64'' else if e = 69 then Some ''65-69''
      else if e = 74 then Some ''70-74'' else if e = 79 then Some ''75-79''
      else if e = 120 then Some (''80 y m'' @ [CHR 0xE1] @ ''s'') else None)"

text \<open>
  The per-year aggregate of an age group in a loaded table: whether the group has a row
  in the year, and the sum of \<open>Value\<close> over its rows of the year, both sexes together.
\<close>

definition group_present :: "frame \<Rightarrow> int \<Rightarrow> string \<Rightarrow> bool" where
  "group_present d y g = (\<exists>r \<in> set (rows d). Time r = y \<and> AgeGroup r = Some g)"

definition group_total :: "frame \<Rightarrow> int \<Rightarrow> string \<Rightarrow> int" where
  "group_total d y g =
     sum_list (map Value (filter (\<lambda>r. Time r = y \<and> AgeGroup r = Some g) (rows d)))"








text \<open>Small tables for the concrete instances below.\<close>

definition census_row :: "int \<Rightarrow> int \<Rightarrow> string \<Rightarrow> int \<Rightarrow> row" where
  "census_row t e sx v =
     \<lparr> Location = ''Cajamarca'', Time = t, AgeRange = [], AgeStart = 0, AgeEnd = e,
       Sex = sx, Value = v \<rparr>"

definition small_census :: "row list" where
  "small_census =
     [census_row 2017 9 ''Hombre'' 10, census_row 2017 4 ''Hombre'' 7,
      census_row 2017 4 ''Mujer'' 5, census_row 1981 4 ''Mujer'' 3,
      census_row 1981 120 ''Hombre'' 1, census_row 2017 4 ''Hombre'' 1]"

definition census_with_82 :: "row list" where
  "census_with_82 =
     [census_row 2017 4 ''Hombre'' 7, census_row 2017 82 ''Hombre'' 100,
      census_row 2017 4 ''Mujer'' 5]"

definition census_same :: "row list" where
  "census_same =
     [census_row 1981 4 ''Hombre'' 0, census_row 2017 4 ''Hombre'' 0,
      census_row 1981 9 ''Mujer'' 6, census_row 2017 9 ''Mujer'' 6]"

definition census_zero :: "row list" where
  "census_zero =
     [census_row 1981 4 ''Hombre'' 0, census_row 2017 4 ''Hombre'' 0,
      census_row 1981 9 ''Mujer'' 0, census_row 2017 9 ''Mujer'' 4]"


section \<open>The loader\<close>

lemma AgeGroup_load_row: "AgeGroup (load_row r) = listed_label (AgeEnd r)"
  by (simp add: load_row_def row.extend_def lrow.fields_def series_map_def
      age_mapping_def Categorical_def age_groups_def listed_label_def)

lemma truncate_load_row: "row.truncate (load_row r) = r"
  by (simp add: load_row_def row.extend_def row.truncate_def lrow.fields_def)

lemma fields_load_row:
  "Time (load_row r) = Time r" "Sex (load_row r) = Sex r"
  "Value (load_row r) = Value r" "AgeEnd (load_row r) = AgeEnd r"
  by (simp_all add: load_row_def row.extend_def lrow.fields_def)

text \<open>
  Claim C1.  The loader keeps every input row and adds the age group: for a row whose
  \<open>AgeEnd\<close> is one of the 17 keys the label the table lists for the key, for a row with
  any other \<open>AgeEnd\<close> the null value.
\<close>

theorem load_data_assigns_listed_label:
  "length (rows (load_data raw)) = length raw \<and>
   (\<forall>i < length raw.
      AgeGroup (rows (load_data raw) ! i) = listed_label (AgeEnd (raw ! i)) \<and>
      row.truncate (rows (load_data raw) ! i) = raw ! i)"
  by (simp add: load_data_def AgeGroup_load_row truncate_load_row)

theorem load_data_assigns_listed_label_witness:
  "(1::nat) < length census_with_82 \<and>
   AgeGroup (rows (load_data census_with_82) ! 0) = Some ''0-4'' \<and>
   AgeGroup (rows (load_data census_with_82) ! 1) = None \<and>
   row.truncate (rows (load_data census_with_82) ! 1) = census_row 2017 82 ''Hombre'' 100"
  using load_data_assigns_listed_label [of census_with_82]
  by (simp add: census_with_82_def census_row_def listed_label_def)


section \<open>Sums over the groups\<close>




lemma groupby_sum_select:
  "groupby_sum (select P d) =
     map (\<lambda>g. (g, sum_list (map Value (filter (\<lambda>r. P r \<and> AgeGroup r = Some g) (rows d)))))
       (filter (\<lambda>g. \<exists>r \<in> set (rows d). P r \<and> AgeGroup r = Some g) (categories d))"
  by (simp add: groupby_sum_def select_def Bex_def)


lemma distinct_age_groups: "distinct age_groups"
  by (simp add: age_groups_def)


lemma listed_label_in_age_groups: "listed_label e = Some l \<Longrightarrow> l \<in> set age_groups"
  by (auto simp add: listed_label_def age_groups_def split: if_splits)



section \<open>The population pyramid\<close>

lemma pyramid_figure:
  assumes "deref s data = Some (DataFrame d)"
  shows "\<exists>s'. generate_population_pyramid data year s =
     (Inr [\<lparr> bar_name = ''Hombres'',
             bar_y = map fst (groupby_sum (select (\<lambda>r. Sex r = ''Hombre'') (select (\<lambda>r. Time r = year) d))),
             bar_x = map snd (groupby_sum (select (\<lambda>r. Sex r = ''Hombre'') (select (\<lambda>r. Time r = year) d))),
             bar_text = map snd (groupby_sum (select (\<lambda>r. Sex r = ''Hombre'') (select (\<lambda>r. Time r = year) d))) \<rparr>,
           \<lparr> bar_name = ''Mujeres'',
             bar_y = map fst (groupby_sum (select (\<lambda>r. Sex r = ''Mujer'') (select (\<lambda>r. Time r = year) d))),
             bar_x = map (\<lambda>v. - v) (map snd (groupby_sum (select (\<lambda>r. Sex r = ''Mujer'') (select (\<lambda>r. Time r = year) d)))),
             bar_text = map snd (groupby_sum (select (\<lambda>r. Sex r = ''Mujer'') (select (\<lambda>r. Time r = year) d))) \<rparr>], s')"
  using assms by (simp add: generate_population_pyramid_def new_def Let_def)

lemma select_select: "select P (select Q d) = select (\<lambda>r. Q r \<and> P r) d"
  by (simp add: select_def)









lemma groupby_sum_no_rows: "rows d = [] \<Longrightarrow> groupby_sum d = []"
  by (simp add: groupby_sum_def)


text \<open>
  Claim C9.  For a year that no row of the table has, the pyramid builder returns a
  figure, and both of its traces are empty; no exception ends the call.
\<close>

theorem pyramid_of_absent_year_is_empty:
  assumes "deref s data = Some (DataFrame d)" and "year \<notin> Time ` set (rows d)"
  shows "\<exists>s'. generate_population_pyramid data year s =
     (Inr [\<lparr> bar_name = ''Hombres'', bar_y = [], bar_x = [], bar_text = [] \<rparr>,
           \<lparr> bar_name = ''Mujeres'', bar_y = [], bar_x = [], bar_text = [] \<rparr>], s')"
proof -
  from assms(2) have "filter (\<lambda>r. Time r = year) (rows d) = []"
    by (auto simp add: filter_empty_conv)
  then have "groupby_sum (select P (select (\<lambda>r. Time r = year) d)) = []" for P
    by (simp add: groupby_sum_no_rows select_def)
  with pyramid_figure [OF assms(1), of year] show ?thesis
    by simp
qed

theorem pyramid_of_absent_year_is_empty_witness:
  "deref (initial small_census) 0 = Some (DataFrame (load_data small_census)) \<and>
   1999 \<notin> Time ` set (rows (load_data small_census)) \<and>
   fst (generate_population_pyramid 0 1999 (initial small_census)) =
     Inr [\<lparr> bar_name = ''Hombres'', bar_y = [], bar_x = [], bar_text = [] \<rparr>,
          \<lparr> bar_name = ''Mujeres'', bar_y = [], bar_x = [], bar_text = [] \<rparr>]"
proof -
  have h: "deref (initial small_census) 0 = Some (DataFrame (load_data small_census))"
    by (simp add: deref_def initial_def)
  have y: "1999 \<notin> Time ` set (rows (load_data small_census))"
    by (simp add: load_data_def fields_load_row small_census_def census_row_def)
  from pyramid_of_absent_year_is_empty [OF h y] h y show ?thesis
    by auto
qed



section \<open>The trend over the years\<close>

lemma trend_figure:
  assumes "deref s data = Some (DataFrame d)"
  shows "\<exists>s'. generate_population_trend data s =
     (Inr (map (\<lambda>(g, col). \<lparr> area_name = g,
                   area_x = index (unstack (categories d) (groupby2_sum d)), area_y = col \<rparr>)
             (columns (unstack (categories d) (groupby2_sum d)))), s')"
  using assms by (simp add: generate_population_trend_def new_def Let_def)















section \<open>The loaded table after a call\<close>




section \<open>The comparison of two years\<close>

lemma comparison_figure:
  assumes "deref s data = Some (DataFrame d)" and "deref s (df s) = Some (DataFrame g)"
    and "year1 \<noteq> year2"
  shows "\<exists>s'. generate_comparison_chart data year1 year2 s =
     (Inr \<lparr> change_x = map fst (merge (groupby_sum (select (\<lambda>r. Time r = year1) d))
                                  (groupby_sum (select (\<lambda>r. Time r = year2) d))),
            change_y = map (\<lambda>(g, v1, v2). multiply (true_divide (v2 - v1) v1) 100)
                         (merge (groupby_sum (select (\<lambda>r. Time r = year1) d))
                                (groupby_sum (select (\<lambda>r. Time r = year2) d))),
            categoryarray = categories g \<rparr>, s')"
  using assms
  by (simp add: generate_comparison_chart_def setitem_Change_def new_def deref_def
      nth_append Let_def split: if_splits)

lemma groupby_sum_year:
  "groupby_sum (select (\<lambda>r. Time r = y) d) =
     map (\<lambda>g. (g, group_total d y g)) (filter (group_present d y) (categories d))"
  by (simp add: groupby_sum_select group_total_def group_present_def [abs_def])

lemma filter_key:
  "distinct cs \<Longrightarrow>
   filter (\<lambda>(g', v2). g' = g) (map (\<lambda>g. (g, G g)) (filter Q cs)) =
     (if g \<in> set cs \<and> Q g then [(g, G g)] else [])"
  by (induction cs) auto

lemma merge_sublist:
  assumes "distinct cs" and "set xs \<subseteq> set cs"
  shows "merge (map (\<lambda>g. (g, F g)) (filter P xs)) (map (\<lambda>g. (g, G g)) (filter Q cs)) =
     map (\<lambda>g. (g, F g, G g)) (filter (\<lambda>g. P g \<and> Q g) xs)"
  using assms(2)
  by (induction xs) (auto simp add: merge_def filter_key [OF assms(1)])

lemma merge_groupby_sum:
  assumes "distinct (categories d)"
  shows "merge (groupby_sum (select (\<lambda>r. Time r = y1) d))
               (groupby_sum (select (\<lambda>r. Time r = y2) d)) =
     map (\<lambda>g. (g, group_total d y1 g, group_total d y2 g))
       (filter (\<lambda>g. group_present d y1 g \<and> group_present d y2 g) (categories d))"
  by (simp add: groupby_sum_year merge_sublist [OF assms])

lemma comparison_rows:
  assumes "deref s data = Some (DataFrame d)" and "deref s (df s) = Some (DataFrame g)"
    and "year1 \<noteq> year2" and "distinct (categories d)"
  shows "\<exists>s'. generate_comparison_chart data year1 year2 s =
     (Inr \<lparr> change_x =
              filter (\<lambda>g. group_present d year1 g \<and> group_present d year2 g) (categories d),
            change_y =
              map (\<lambda>g. multiply
                     (true_divide (group_total d year2 g - group_total d year1 g)
                        (group_total d year1 g)) 100)
                (filter (\<lambda>g. group_present d year1 g \<and> group_present d year2 g) (categories d)),
            categoryarray = categories g \<rparr>, s')"
  using comparison_figure [OF assms(1-3)]
  by (simp add: merge_groupby_sum [OF assms(4)] comp_def)


lemma percent_change_zero:
  "multiply (true_divide (v2 - 0) 0) 100 =
     (if 0 < v2 then PosInf else if v2 < 0 then NegInf else NaN)"
  by (simp add: multiply_def true_divide_def)

lemma categories_load_data: "categories (load_data raw) = age_groups"
  by (simp add: load_data_def)

lemma group_present_loaded:
  "group_present (load_data raw) y g \<Longrightarrow> g \<in> set age_groups"
  by (auto simp add: group_present_def load_data_def AgeGroup_load_row
      dest: listed_label_in_age_groups)




text \<open>
  Claim C5.  When an age group with rows in both years has the total zero in the first
  year, the builder still returns a figure, the group keeps its bar, and the value of the
  bar is not finite: an infinity with the sign of the second total, or NaN when that is
  zero too.
\<close>

theorem comparison_zero_total_not_finite:
  assumes "deref s data = Some (DataFrame (load_data raw))"
    and "deref s (df s) = Some (DataFrame (load_data raw0))"
    and "year1 \<noteq> year2"
    and "group_present (load_data raw) year1 g" and "group_present (load_data raw) year2 g"
    and "group_total (load_data raw) year1 g = 0"
  shows "\<exists>fig s' c. generate_comparison_chart data year1 year2 s = (Inr fig, s') \<and>
     (g, c) \<in> set (zip (change_x fig) (change_y fig)) \<and> \<not> isfinite c \<and>
     c = (if 0 < group_total (load_data raw) year2 g then PosInf
          else if group_total (load_data raw) year2 g < 0 then NegInf else NaN)"
proof -
  let ?d = "load_data raw"
  let ?G = "filter (\<lambda>g. group_present ?d year1 g \<and> group_present ?d year2 g) age_groups"
  let ?pct = "\<lambda>g. multiply (true_divide (group_total ?d year2 g - group_total ?d year1 g)
                        (group_total ?d year1 g)) 100"
  let ?c = "if 0 < group_total ?d year2 g then PosInf
          else if group_total ?d year2 g < 0 then NegInf else NaN"
  have "distinct (categories ?d)"
    by (simp add: categories_load_data distinct_age_groups)
  from comparison_rows [OF assms(1-3) this, unfolded categories_load_data]
  obtain s' where r: "generate_comparison_chart data year1 year2 s =
     (Inr \<lparr> change_x = ?G, change_y = map ?pct ?G, categoryarray = age_groups \<rparr>, s')"
    by blast
  from assms(4,5) have "g \<in> set ?G"
    by (simp add: group_present_loaded)
  then have "(g, ?pct g) \<in> set (zip ?G (map ?pct ?G))"
    by (simp add: zip_map2 zip_same_conv_map image_iff)
  moreover have "?pct g = ?c"
    using percent_change_zero [of "group_total ?d year2 g"] by (simp add: assms(6))
  ultimately have m: "(g, ?c) \<in> set (zip ?G (map ?pct ?G))"
    by simp
  have nf: "\<not> isfinite ?c"
    by (simp add: isfinite_def)
  show ?thesis
  proof (intro exI conjI)
    show "generate_comparison_chart data year1 year2 s =
     (Inr \<lparr> change_x = ?G, change_y = map ?pct ?G, categoryarray = age_groups \<rparr>, s')"
      by (rule r)
    show "(g, ?c) \<in> set (zip (change_x \<lparr> change_x = ?G, change_y = map ?pct ?G, categoryarray = age_groups \<rparr>)
        (change_y \<lparr> change_x = ?G, change_y = map ?pct ?G, categoryarray = age_groups \<rparr>))"
      unfolding change_bars.select_convs by (rule m)
    show "\<not> isfinite ?c" by (rule nf)
    show "?c = ?c" by (rule refl)
  qed
qed

theorem comparison_zero_total_not_finite_witness:
  "deref (initial census_zero) 0 = Some (DataFrame (load_data census_zero)) \<and>
   df (initial census_zero) = 0 \<and> (1981::int) \<noteq> 2017 \<and>
   group_present (load_data census_zero) 1981 ''5-9'' \<and>
   group_present (load_data census_zero) 2017 ''5-9'' \<and>
   group_total (load_data census_zero) 1981 ''5-9'' = 0 \<and>
   (\<exists>fig s'. generate_comparison_chart 0 1981 2017 (initial census_zero) = (Inr fig, s') \<and>
      (''5-9'', PosInf) \<in> set (zip (change_x fig) (change_y fig)))"
proof -
  have h: "deref (initial census_zero) 0 = Some (DataFrame (load_data census_zero))"
    by (simp add: deref_def initial_def)
  have g: "df (initial census_zero) = 0"
    by (simp add: initial_def)
  have p: "group_present (load_data census_zero) 1981 ''5-9''"
    "group_present (load_data census_zero) 2017 ''5-9''"
    by code_simp+
  have z: "group_total (load_data census_zero) 1981 ''5-9'' = 0"
    "group_total (load_data census_zero) 2017 ''5-9'' = 4"
    by code_simp+
  from comparison_zero_total_not_finite
    [of "initial census_zero" 0 census_zero census_zero 1981 2017 "''5-9''"] h g p z
  show ?thesis by auto
qed


text \<open>
  Claim C7, as amended.  When every age group has the same total in both years, the bar of
  every group with a nonzero total is 0, and the bar of a group whose total is zero is
  NaN.
\<close>

theorem comparison_equal_totals:
  assumes "deref s data = Some (DataFrame (load_data raw))"
    and "deref s (df s) = Some (DataFrame (load_data raw0))"
    and "year1 \<noteq> year2"
    and "\<forall>g \<in> set age_groups.
           group_total (load_data raw) year1 g = group_total (load_data raw) year2 g"
  shows "\<exists>fig s'. generate_comparison_chart data year1 year2 s = (Inr fig, s') \<and>
     change_y fig =
       map (\<lambda>g. if group_total (load_data raw) year1 g = 0 then NaN else Finite 0)
         (change_x fig)"
proof -
  let ?d = "load_data raw"
  let ?G = "filter (\<lambda>g. group_present ?d year1 g \<and> group_present ?d year2 g) age_groups"
  let ?pct = "\<lambda>g. multiply (true_divide (group_total ?d year2 g - group_total ?d year1 g)
                        (group_total ?d year1 g)) 100"
  have eq: "map ?pct ?G = map (\<lambda>g. if group_total ?d year1 g = 0 then NaN else Finite 0) ?G"
  proof (rule map_cong [OF refl])
    fix g assume "g \<in> set ?G"
    with assms(4) have "group_total ?d year2 g = group_total ?d year1 g" by simp
    then show "?pct g = (if group_total ?d year1 g = 0 then NaN else Finite 0)"
      by (simp add: multiply_def true_divide_def)
  qed
  have "distinct (categories ?d)"
    by (simp add: categories_load_data distinct_age_groups)
  from comparison_rows [OF assms(1-3) this, unfolded categories_load_data]
  obtain s' where r: "generate_comparison_chart data year1 year2 s =
     (Inr \<lparr> change_x = ?G, change_y = map ?pct ?G, categoryarray = age_groups \<rparr>, s')"
    by blast
  show ?thesis
  proof (intro exI conjI)
    show "generate_comparison_chart data year1 year2 s =
     (Inr \<lparr> change_x = ?G, change_y = map ?pct ?G, categoryarray = age_groups \<rparr>, s')"
      by (rule r)
  qed (simp only: change_bars.select_convs eq)
qed

theorem comparison_equal_totals_witness:
  "deref (initial census_same) 0 = Some (DataFrame (load_data census_same)) \<and>
   df (initial census_same) = 0 \<and> (1981::int) \<noteq> 2017 \<and>
   list_all (\<lambda>g. group_total (load_data census_same) 1981 g =
                 group_total (load_data census_same) 2017 g) age_groups \<and>
   (\<exists>fig s'. generate_comparison_chart 0 1981 2017 (initial census_same) = (Inr fig, s') \<and>
      change_x fig = [''0-4'', ''5-9''] \<and>
      change_y fig = map (\<lambda>g. if group_total (load_data census_same) 1981 g = 0 then NaN
                               else Finite 0) [''0-4'', ''5-9''])"
proof -
  have h: "deref (initial census_same) 0 = Some (DataFrame (load_data census_same))"
    by (simp add: deref_def initial_def)
  have g: "df (initial census_same) = 0"
    by (simp add: initial_def)
  have eq: "list_all (\<lambda>g. group_total (load_data census_same) 1981 g =
                 group_total (load_data census_same) 2017 g) age_groups"
    by code_simp
  have x: "change_x (projr (fst (generate_comparison_chart 0 1981 2017 (initial census_same)))) =
      [''0-4'', ''5-9'']"
    by code_simp
  from comparison_equal_totals
    [of "initial census_same" 0 census_same census_same 1981 2017] h g eq x
  show ?thesis by (auto simp add: list_all_iff)
qed


text \<open>
  The claim as stated has every bar at 0.  With the same rows in both years and a group
  whose count is zero, that group's bar is NaN.
\<close>

theorem comparison_equal_totals_counterexample:
  "fst (generate_comparison_chart 0 1981 2017 (initial census_same)) =
     Inr \<lparr> change_x = [''0-4'', ''5-9''], change_y = [NaN, Finite 0],
           categoryarray = age_groups \<rparr> \<and>
   list_all (\<lambda>g. group_total (load_data census_same) 1981 g =
                 group_total (load_data census_same) 2017 g) age_groups \<and>
   NaN \<noteq> Finite 0"
  by code_simp


section \<open>What the aggregates depend on\<close>

text \<open>
  The grouped sums of a frame are determined by the categories and, for every key, by the
  rows of the key up to their order.
\<close>

lemma concat_map_nonempty:
  "concat (map F xs) = concat (map F (filter (\<lambda>t. F t \<noteq> []) xs))"
  by (induction xs) auto

lemma concat_blocks_sorted:
  fixes xs :: "int list"
  shows "concat (map F (sort (remdups xs))) =
     concat (map F (sorted_list_of_set (set (filter (\<lambda>t. F t \<noteq> []) xs))))"
proof -
  have "concat (map F (sort (remdups xs))) =
      concat (map F (filter (\<lambda>t. F t \<noteq> []) (sort (remdups xs))))"
    by (rule concat_map_nonempty)
  also have "filter (\<lambda>t. F t \<noteq> []) (sort (remdups xs)) =
      sort (remdups (filter (\<lambda>t. F t \<noteq> []) xs))"
    by (simp add: filter_sort remdups_filter)
  also have "\<dots> = sorted_list_of_set (set (filter (\<lambda>t. F t \<noteq> []) xs))"
    by (simp only: sorted_list_of_set_sort_remdups)
  finally show ?thesis .
qed

lemma exists_row_iff_filter: "(\<exists>r \<in> set xs. P r) \<longleftrightarrow> filter P xs \<noteq> []"
  by (simp add: filter_empty_conv)

lemma sum_list_map_mset_cong:
  fixes f :: "'a \<Rightarrow> int"
  shows "mset xs = mset ys \<Longrightarrow> sum_list (map f xs) = sum_list (map f ys)"
  by (metis mset_map sum_mset_sum_list)

lemma empty_mset_cong: "mset xs = mset ys \<Longrightarrow> (xs = []) = (ys = [])"
  by (metis mset_zero_iff)

lemma groupby_sum_cong:
  assumes "categories d = categories d'"
    and "\<And>g. mset (filter (\<lambda>r. AgeGroup r = Some g) (rows d)) =
              mset (filter (\<lambda>r. AgeGroup r = Some g) (rows d'))"
  shows "groupby_sum d = groupby_sum d'"
proof -
  have sums: "sum_list (map Value (filter (\<lambda>r. AgeGroup r = Some g) (rows d))) =
      sum_list (map Value (filter (\<lambda>r. AgeGroup r = Some g) (rows d')))" for g
    using assms(2) by (rule sum_list_map_mset_cong)
  have none: "(filter (\<lambda>r. AgeGroup r = Some g) (rows d) = []) =
      (filter (\<lambda>r. AgeGroup r = Some g) (rows d') = [])" for g
    using assms(2) by (rule empty_mset_cong)
  show ?thesis
    by (simp add: groupby_sum_def exists_row_iff_filter assms(1) sums none)
qed

lemma groupby2_sum_cong:
  assumes "categories d = categories d'"
    and "\<And>t g. mset (filter (\<lambda>r. Time r = t \<and> AgeGroup r = Some g) (rows d)) =
              mset (filter (\<lambda>r. Time r = t \<and> AgeGroup r = Some g) (rows d'))"
  shows "groupby2_sum d = groupby2_sum d'"
proof -
  define F where "F = (\<lambda>(d::frame) t. map (\<lambda>g. ((t, g),
               sum_list (map Value
                 (filter (\<lambda>r. Time r = t \<and> AgeGroup r = Some g) (rows d)))))
          (filter (\<lambda>g. filter (\<lambda>r. Time r = t \<and> AgeGroup r = Some g) (rows d) \<noteq> [])
             (categories d)))"
  have sums: "sum_list (map Value (filter (\<lambda>r. Time r = t \<and> AgeGroup r = Some g) (rows d))) =
      sum_list (map Value (filter (\<lambda>r. Time r = t \<and> AgeGroup r = Some g) (rows d')))" for t g
    using assms(2) by (rule sum_list_map_mset_cong)
  have none: "(filter (\<lambda>r. Time r = t \<and> AgeGroup r = Some g) (rows d) = []) =
      (filter (\<lambda>r. Time r = t \<and> AgeGroup r = Some g) (rows d') = [])" for t g
    using assms(2) by (rule empty_mset_cong)
  have F: "F d = F d'"
    by (simp add: F_def assms(1) sums none)
  have years: "set (filter (\<lambda>t. F e t \<noteq> []) (map Time (rows e))) = {t. F e t \<noteq> []}" for e :: frame
    by (auto simp add: F_def filter_empty_conv)
  have "groupby2_sum e = concat (map (F e) (sort (remdups (map Time (rows e)))))" for e :: frame
    by (simp add: groupby2_sum_def exists_row_iff_filter F_def)
  then have "groupby2_sum e = concat (map (F e) (sorted_list_of_set {t. F e t \<noteq> []}))" for e
    by (simp only: concat_blocks_sorted [of "F e"] years)
  then show ?thesis
    by (simp only: F)
qed

lemma deref_initial: "deref (initial raw) 0 = Some (DataFrame (load_data raw))"
  by (simp add: deref_def initial_def)

lemma df_initial: "df (initial raw) = 0"
  by (simp add: initial_def)

lemma comparison_equal_years:
  "deref s data = Some (DataFrame d) \<Longrightarrow>
   fst (generate_comparison_chart data year year s) = Inl ValueError"
  by (simp add: generate_comparison_chart_def new_def Let_def)

lemma filter_unmapped_row:
  assumes "listed_label (AgeEnd r) = None"
  shows "filter (\<lambda>x. P x \<and> AgeGroup x = Some g) (rows (load_data (xs @ r # ys))) =
         filter (\<lambda>x. P x \<and> AgeGroup x = Some g) (rows (load_data (xs @ ys)))"
  using assms by (simp add: load_data_def AgeGroup_load_row)

lemma groupby_sum_unmapped_row:
  assumes "listed_label (AgeEnd r) = None"
  shows "groupby_sum (select P (load_data (xs @ r # ys))) =
         groupby_sum (select P (load_data (xs @ ys)))"
proof (rule groupby_sum_cong)
  show "categories (select P (load_data (xs @ r # ys))) =
        categories (select P (load_data (xs @ ys)))"
    by (simp add: select_def load_data_def)
  show "mset (filter (\<lambda>x. AgeGroup x = Some g) (rows (select P (load_data (xs @ r # ys))))) =
        mset (filter (\<lambda>x. AgeGroup x = Some g) (rows (select P (load_data (xs @ ys)))))" for g
    using filter_unmapped_row [OF assms, of P g xs ys] by (simp add: select_def)
qed

lemma groupby2_sum_unmapped_row:
  assumes "listed_label (AgeEnd r) = None"
  shows "groupby2_sum (load_data (xs @ r # ys)) = groupby2_sum (load_data (xs @ ys))"
proof (rule groupby2_sum_cong)
  show "categories (load_data (xs @ r # ys)) = categories (load_data (xs @ ys))"
    by (simp add: load_data_def)
  show "mset (filter (\<lambda>x. Time x = t \<and> AgeGroup x = Some g) (rows (load_data (xs @ r # ys)))) =
        mset (filter (\<lambda>x. Time x = t \<and> AgeGroup x = Some g) (rows (load_data (xs @ ys))))" for t g
    by (simp only: filter_unmapped_row [OF assms])
qed


text \<open>
  Claim C6.  A row whose \<open>AgeEnd\<close> is not a key of the mapping table is in no aggregate:
  wherever it stands in the input, the pyramid of every year, the trend chart and the
  comparison of every two years are what they are without the row.
\<close>

theorem unmapped_row_in_no_aggregate:
  assumes "listed_label (AgeEnd r) = None"
  shows "fst (generate_population_pyramid 0 year (initial (xs @ r # ys))) =
         fst (generate_population_pyramid 0 year (initial (xs @ ys))) \<and>
         fst (generate_population_trend 0 (initial (xs @ r # ys))) =
         fst (generate_population_trend 0 (initial (xs @ ys))) \<and>
         fst (generate_comparison_chart 0 year1 year2 (initial (xs @ r # ys))) =
         fst (generate_comparison_chart 0 year1 year2 (initial (xs @ ys)))"
proof (intro conjI)
  let ?with = "xs @ r # ys" and ?without = "xs @ ys"
  have g: "groupby_sum (select P (select Q (load_data ?with))) =
           groupby_sum (select P (select Q (load_data ?without)))" for P Q
    by (simp only: select_select groupby_sum_unmapped_row [OF assms])
  from pyramid_figure [OF deref_initial [of ?with], of year]
    pyramid_figure [OF deref_initial [of ?without], of year]
  show "fst (generate_population_pyramid 0 year (initial ?with)) =
        fst (generate_population_pyramid 0 year (initial ?without))"
    by (auto simp add: g)
  have "categories (load_data ?with) = categories (load_data ?without)"
    by (simp add: load_data_def)
  with trend_figure [OF deref_initial [of ?with]] trend_figure [OF deref_initial [of ?without]]
  show "fst (generate_population_trend 0 (initial ?with)) =
        fst (generate_population_trend 0 (initial ?without))"
    by (auto simp add: groupby2_sum_unmapped_row [OF assms])
  show "fst (generate_comparison_chart 0 year1 year2 (initial ?with)) =
        fst (generate_comparison_chart 0 year1 year2 (initial ?without))"
  proof (cases "year1 = year2")
    case True
    then show ?thesis
      by (simp add: comparison_equal_years [OF deref_initial])
  next
    case False
    have d: "deref (initial raw) (df (initial raw)) = Some (DataFrame (load_data raw))" for raw
      by (simp add: df_initial deref_initial)
    have c: "categories (load_data ?with) = categories (load_data ?without)"
      by (simp add: load_data_def)
    from comparison_figure [OF deref_initial [of ?with] d [of ?with] False]
      comparison_figure [OF deref_initial [of ?without] d [of ?without] False]
    show ?thesis
      by (auto simp add: groupby_sum_unmapped_row [OF assms] c)
  qed
qed

theorem unmapped_row_in_no_aggregate_witness:
  "listed_label (AgeEnd (census_row 2017 82 ''Hombre'' 100)) = None \<and>
   fst (generate_population_pyramid 0 2017 (initial census_with_82)) =
     fst (generate_population_pyramid 0 2017
       (initial [census_row 2017 4 ''Hombre'' 7, census_row 2017 4 ''Mujer'' 5])) \<and>
   fst (generate_population_trend 0 (initial census_with_82)) =
     fst (generate_population_trend 0
       (initial [census_row 2017 4 ''Hombre'' 7, census_row 2017 4 ''Mujer'' 5])) \<and>
   fst (generate_comparison_chart 0 1981 2017 (initial census_with_82)) =
     fst (generate_comparison_chart 0 1981 2017
       (initial [census_row 2017 4 ''Hombre'' 7, census_row 2017 4 ''Mujer'' 5]))"
proof -
  have u: "listed_label (AgeEnd (census_row 2017 82 ''Hombre'' 100)) = None"
    by (simp add: listed_label_def census_row_def)
  from unmapped_row_in_no_aggregate [OF u, where year = 2017
      and xs = "[census_row 2017 4 ''Hombre'' 7]" and ys = "[census_row 2017 4 ''Mujer'' 5]"
      and ?year1.0 = 1981 and ?year2.0 = 2017] u
  show ?thesis
    by (simp add: census_with_82_def)
qed


section \<open>The order of the age groups\<close>










end
